theory Spec2Isabelle
  imports Main
begin

section \<open>Data model of \<^verbatim>\<open>loafer.go\<close>\<close>

text \<open>
  Go strings are byte strings: \<^typ>\<open>string\<close>. A nil pointer is \<open>None\<close>. A nil map
  reads like an empty one, so a handler table is a partial map in both cases.
\<close>

record SlackAuthToken =
  Workspace :: string
  Token :: string

record SlackAppOptions =
  Name :: string
  Prefix :: string
  Tokens :: "SlackAuthToken list"
  ClientSecret :: string
  ClientID :: string
  SigningSecret :: string

record SlackOauth2Team =
  team_Name :: string
  team_ID :: string

record SlackOauth2User =
  user_ID :: string
  user_Scope :: string
  user_AccessToken :: string
  user_TokenType :: string

record SlackOauth2Response =
  Ok :: bool
  AccessToken :: string
  TokenType :: string
  Scope :: string
  BotUserID :: string
  AppID :: string
  Team :: SlackOauth2Team
  Enterprise :: SlackOauth2Team
  AuthedUser :: SlackOauth2User

text \<open>
  The interaction event. Of \<^verbatim>\<open>SlackInteractionEvent\<close> and of the structs it points
  to, the records keep the fields that \<^verbatim>\<open>interactions\<close> reads and some of their
  neighbours; the handlers never read the others. \<^verbatim>\<open>Team\<close> and \<^verbatim>\<open>View\<close> are
  pointers, \<^verbatim>\<open>Actions\<close> is a slice.
\<close>

record SlackInteractionTeam =
  ID :: string
  Domain :: string

record SlackInteractionAction =
  ActionID :: string
  BlockID :: string
  Value :: string
  action_Type :: string
  ActionTS :: string

record SlackInteractionView =
  view_ID :: string
  view_TeamID :: string
  view_Type :: string
  view_CallbackID :: string

record SlackInteractionEvent =
  Type :: string
  event_Team :: "SlackInteractionTeam option"
  Actions :: "SlackInteractionAction list"
  View :: "SlackInteractionView option"
  CallbackID :: string

text \<open>
  An inbound \<^verbatim>\<open>*http.Request\<close>, as the handlers read it: the result of
  \<^verbatim>\<open>ioutil.ReadAll(req.Body)\<close> (\<open>None\<close> when the read fails), of
  \<^verbatim>\<open>req.Header.Get(k)\<close> for a header name \<open>k\<close> (the empty string when the header
  is absent), and the raw query string of the URL.
\<close>

record http_request =
  Body_ReadAll :: "string option"
  Header_Get :: "string \<Rightarrow> string"
  URL_RawQuery :: string

record SlackContext =
  Body :: string
  ctx_Token :: string
  Req :: http_request

text \<open>
  A registered handler is a Go function value: nil, or a function, which the model keeps
  opaque (type \<open>'h\<close>). Of the post-install callback the model keeps the flag it
  returns, which suppresses the default page. The field \<^verbatim>\<open>server\<close> of
  \<^verbatim>\<open>SlackApp\<close> is left out: no request handler reads it.
\<close>

datatype 'h handler_func = NilFunc | Func 'h

record 'h SlackApp =
  opts :: SlackAppOptions
  distCB :: "(SlackOauth2Response \<Rightarrow> http_request \<Rightarrow> bool) option"
  cmds :: "string \<rightharpoonup> 'h handler_func"
  shortcutListeners :: "string \<rightharpoonup> 'h handler_func"
  actionListeners :: "string \<rightharpoonup> 'h handler_func"
  submitListeners :: "string \<rightharpoonup> 'h handler_func"
  closeListeners :: "string \<rightharpoonup> 'h handler_func"

text \<open>
  What a request handler does, in order: a line printed by \<^verbatim>\<open>fmt.Printf\<close>, a call of
  \<^verbatim>\<open>Response\<close> (status code, body, headers set), a call of a registered handler with
  its context, a call of the post-install callback, a run-time panic. What a called
  handler or callback does in its turn is the application's and is not modelled.
\<close>

datatype go_panic = NilPointerDereference | IndexOutOfRange nat nat

datatype 'h effect =
    Printf string
  | Response nat string "(string \<times> string) list"
  | Call 'h SlackContext
  | CallDistCB SlackOauth2Response http_request
  | Panic go_panic

text \<open>
  What lies outside the repository: the keyed digest of \<^verbatim>\<open>crypto/hmac\<close> with
  \<^verbatim>\<open>crypto/sha256\<close> (key, then data), the two JSON decoders (\<open>None\<close> on an error),
  \<^verbatim>\<open>http.Post\<close> (URL, content type, body; the response body, \<open>None\<close> on a transport
  error), and the constant \<^verbatim>\<open>INSTALLSUCCESSPAGE\<close>, declared in a file that is not
  among the sources.
\<close>

record externals =
  hmac_sha256 :: "string \<Rightarrow> string \<Rightarrow> string"
  json_Unmarshal_event :: "string \<Rightarrow> SlackInteractionEvent option"
  json_Decode_oauth :: "string \<Rightarrow> SlackOauth2Response option"
  http_Post :: "string \<Rightarrow> string \<Rightarrow> string \<Rightarrow> string option"
  INSTALLSUCCESSPAGE :: string

section \<open>Library functions the handlers call\<close>

text \<open>\<^verbatim>\<open>strings.Join\<close>.\<close>

fun strings_Join :: "string list \<Rightarrow> string \<Rightarrow> string" where
  "strings_Join [] sep = []"
| "strings_Join [x] sep = x"
| "strings_Join (x # y # ys) sep = x @ sep @ strings_Join (y # ys) sep"

text \<open>\<^verbatim>\<open>hex.EncodeToString\<close>: two lower-case digits for each byte.\<close>

definition hextable :: string where
  "hextable = ''0123456789abcdef''"

fun hex_EncodeToString :: "string \<Rightarrow> string" where
  "hex_EncodeToString [] = []"
| "hex_EncodeToString (b # bs) =
     hextable ! ((of_char b :: nat) div 16) # hextable ! ((of_char b :: nat) mod 16)
       # hex_EncodeToString bs"

text \<open>
  \<^verbatim>\<open>url.QueryUnescape\<close>: \<open>%XX\<close> is the byte with that hexadecimal code, \<open>+\<close> is a
  space; a \<open>%\<close> that two hexadecimal digits do not follow is an error (\<open>None\<close>).
\<close>

definition ishex :: "char \<Rightarrow> bool" where
  "ishex c =
     (let n = (of_char c :: nat)
      in (48 \<le> n \<and> n \<le> 57) \<or> (97 \<le> n \<and> n \<le> 102) \<or> (65 \<le> n \<and> n \<le> 70))"

definition unhex :: "char \<Rightarrow> nat" where
  "unhex c =
     (let n = (of_char c :: nat)
      in if 48 \<le> n \<and> n \<le> 57 then n - 48
         else if 97 \<le> n \<and> n \<le> 102 then n - 97 + 10
         else if 65 \<le> n \<and> n \<le> 70 then n - 65 + 10
         else 0)"

fun QueryUnescape :: "string \<Rightarrow> string option" where
  "QueryUnescape [] = Some []"
| "QueryUnescape (c # cs) =
     (if c = CHR ''%'' then
        (case cs of
           a # b # rest \<Rightarrow>
             if ishex a \<and> ishex b
             then map_option ((#) (char_of (unhex a * 16 + unhex b))) (QueryUnescape rest)
             else None
         | _ \<Rightarrow> None)
      else if c = CHR ''+'' then map_option ((#) CHR '' '') (QueryUnescape cs)
      else map_option ((#) c) (QueryUnescape cs))"

text \<open>
  \<^verbatim>\<open>strings.Cut(s, sep)\<close> for a one-byte separator: the text before the first
  separator and the text after it; all of \<open>s\<close> and the empty string when there is none.
\<close>

definition strings_Cut :: "string \<Rightarrow> char \<Rightarrow> string \<times> string" where
  "strings_Cut s sep = (takeWhile (\<lambda>c. c \<noteq> sep) s, drop 1 (dropWhile (\<lambda>c. c \<noteq> sep) s))"

text \<open>
  \<^verbatim>\<open>url.ParseQuery\<close>: the values collected, and the first error met. The loop goes on
  after an error, so the values of the well-formed pairs are returned with it. A pair
  that holds a semicolon is an error (Go 1.17 and later).
\<close>

datatype url_error = InvalidSemicolon | EscapeError

type_synonym url_Values = "string \<rightharpoonup> string list"

definition Values_append :: "url_Values \<Rightarrow> string \<Rightarrow> string \<Rightarrow> url_Values" where
  "Values_append m k v = m(k \<mapsto> (case m k of None \<Rightarrow> [] | Some vs \<Rightarrow> vs) @ [v])"

function parseQuery :: "url_Values \<Rightarrow> string \<Rightarrow> url_error option \<Rightarrow> url_Values \<times> url_error option"
  where
  "parseQuery m query err =
     (if query = [] then (m, err)
      else
        (let (key, rest) = strings_Cut query CHR ''&'' in
         if CHR '';'' \<in> set key then parseQuery m rest (Some InvalidSemicolon)
         else if key = [] then parseQuery m rest err
         else
           (let (k, v) = strings_Cut key CHR ''='' in
            case QueryUnescape k of
              None \<Rightarrow> parseQuery m rest (if err = None then Some EscapeError else err)
            | Some k' \<Rightarrow>
                (case QueryUnescape v of
                   None \<Rightarrow> parseQuery m rest (if err = None then Some EscapeError else err)
                 | Some v' \<Rightarrow> parseQuery (Values_append m k' v') rest err))))"
  by pat_completeness auto

lemma length_Cut_rest: "query \<noteq> [] \<Longrightarrow> length (dropWhile P query) - Suc 0 < length query"
proof -
  assume ne: "query \<noteq> []"
  have le: "length (dropWhile P query) \<le> length query"
    by (rule length_dropWhile_le)
  from ne have "0 < length query" by simp
  with le show ?thesis by arith
qed

termination parseQuery
  by (relation "measure (\<lambda>(m, query, err). length query)")
     (auto simp: strings_Cut_def length_Cut_rest)

declare parseQuery.simps [simp del]

definition url_ParseQuery :: "string \<Rightarrow> url_Values \<times> url_error option" where
  "url_ParseQuery query = parseQuery Map.empty query None"

text \<open>\<^verbatim>\<open>Values.Get\<close>: the first value of the key, the empty string when there is none.\<close>

definition Values_Get :: "url_Values \<Rightarrow> string \<Rightarrow> string" where
  "Values_Get m k = (case m k of None \<Rightarrow> [] | Some [] \<Rightarrow> [] | Some (v # _) \<Rightarrow> v)"

text \<open>\<^verbatim>\<open>req.URL.Query()\<close> parses the raw query and drops the error.\<close>

definition URL_Query :: "http_request \<Rightarrow> url_Values" where
  "URL_Query req = fst (url_ParseQuery (URL_RawQuery req))"

section \<open>Workspace token registry\<close>

definition SetTokens :: "'h SlackApp \<Rightarrow> SlackAuthToken list \<Rightarrow> 'h SlackApp" where
  "SetTokens a tokens = a\<lparr>opts := (opts a)\<lparr>Tokens := tokens\<rparr>\<rparr>"

definition AddToken :: "'h SlackApp \<Rightarrow> SlackAuthToken \<Rightarrow> 'h SlackApp" where
  "AddToken a token = a\<lparr>opts := (opts a)\<lparr>Tokens := Tokens (opts a) @ [token]\<rparr>\<rparr>"

text \<open>The loop of \<^verbatim>\<open>findTokenForWorkspace\<close> stops at the first match; nil is \<open>None\<close>.\<close>

fun findTokenForWorkspace :: "SlackAuthToken list \<Rightarrow> string \<Rightarrow> SlackAuthToken option" where
  "findTokenForWorkspace [] workspace = None"
| "findTokenForWorkspace (t # ts) workspace =
     (if Workspace t = workspace then Some t else findTokenForWorkspace ts workspace)"

section \<open>Signature verifier\<close>

definition checkSlackSecret :: "externals \<Rightarrow> 'h SlackApp \<Rightarrow> string \<Rightarrow> string \<Rightarrow> string \<Rightarrow> bool"
  where
  "checkSlackSecret E a signing ts body =
     (let data = strings_Join [''v0'', ts, body] '':'';
          signed = SigningSecret (opts a);
          own = strings_Join [''v0'', hex_EncodeToString (hmac_sha256 E signed data)] ''=''
      in if own = signing then True else False)"

text \<open>
  The verifier in the words of the specification: the provided signature equals
  \<open>v0=\<close> followed by the lower-case hexadecimal digest of \<open>v0:\<close> timestamp \<open>:\<close> body.
\<close>

definition spec_verify :: "(string \<Rightarrow> string \<Rightarrow> string) \<Rightarrow> string \<Rightarrow> string \<Rightarrow> string \<Rightarrow> string \<Rightarrow> bool"
  where
  "spec_verify hmac signing_secret timestamp raw_body provided_signature =
     (provided_signature =
        ''v0='' @ hex_EncodeToString (hmac signing_secret (''v0:'' @ timestamp @ '':'' @ raw_body)))"

section \<open>Handler registration\<close>

definition OnCommand :: "'h SlackApp \<Rightarrow> string \<Rightarrow> 'h handler_func \<Rightarrow> 'h SlackApp" where
  "OnCommand a cmd handler = a\<lparr>cmds := (cmds a)(cmd \<mapsto> handler)\<rparr>"

definition RemoveCommand :: "'h SlackApp \<Rightarrow> string \<Rightarrow> 'h SlackApp" where
  "RemoveCommand a cmd = a\<lparr>cmds := (cmds a)(cmd := None)\<rparr>"

definition OnAction :: "'h SlackApp \<Rightarrow> string \<Rightarrow> 'h handler_func \<Rightarrow> 'h SlackApp" where
  "OnAction a actionID handler = a\<lparr>actionListeners := (actionListeners a)(actionID \<mapsto> handler)\<rparr>"

definition OnShortcut :: "'h SlackApp \<Rightarrow> string \<Rightarrow> 'h handler_func \<Rightarrow> 'h SlackApp" where
  "OnShortcut a callbackID handler =
     a\<lparr>shortcutListeners := (shortcutListeners a)(callbackID \<mapsto> handler)\<rparr>"

definition OnViewSubmission :: "'h SlackApp \<Rightarrow> string \<Rightarrow> 'h handler_func \<Rightarrow> 'h SlackApp" where
  "OnViewSubmission a callbackID handler =
     a\<lparr>submitListeners := (submitListeners a)(callbackID \<mapsto> handler)\<rparr>"

definition OnViewClose :: "'h SlackApp \<Rightarrow> string \<Rightarrow> 'h handler_func \<Rightarrow> 'h SlackApp" where
  "OnViewClose a callbackID handler =
     a\<lparr>closeListeners := (closeListeners a)(callbackID \<mapsto> handler)\<rparr>"

definition OnAppInstall ::
  "'h SlackApp \<Rightarrow> (SlackOauth2Response \<Rightarrow> http_request \<Rightarrow> bool) option \<Rightarrow> 'h SlackApp" where
  "OnAppInstall a cb = a\<lparr>distCB := cb\<rparr>"

definition InitializeSlackApp :: "SlackAppOptions \<Rightarrow> 'h SlackApp" where
  "InitializeSlackApp opts0 =
     \<lparr>opts = \<lparr>Name = Name opts0, Prefix = Prefix opts0, Tokens = Tokens opts0,
              ClientSecret = ClientSecret opts0, ClientID = ClientID opts0,
              SigningSecret = SigningSecret opts0\<rparr>,
      distCB = None, cmds = Map.empty, shortcutListeners = Map.empty,
      actionListeners = Map.empty, submitListeners = Map.empty, closeListeners = Map.empty\<rparr>"

section \<open>Install exchange\<close>

text \<open>
  \<^verbatim>\<open>url.QueryEscape\<close>: letters, digits and \<open>- _ . ~\<close> stay, a space is \<open>+\<close>, any other
  byte is \<open>%XX\<close> in upper-case hexadecimal.
\<close>

definition shouldEscape :: "char \<Rightarrow> bool" where
  "shouldEscape c =
     (let n = (of_char c :: nat)
      in if (97 \<le> n \<and> n \<le> 122) \<or> (65 \<le> n \<and> n \<le> 90) \<or> (48 \<le> n \<and> n \<le> 57) then False
         else if c = CHR ''-'' \<or> c = CHR ''_'' \<or> c = CHR ''.'' \<or> c = CHR ''~'' then False
         else True)"

definition upperhex :: string where
  "upperhex = ''0123456789ABCDEF''"

fun QueryEscape :: "string \<Rightarrow> string" where
  "QueryEscape [] = []"
| "QueryEscape (c # cs) =
     (if shouldEscape c then
        (if c = CHR '' '' then CHR ''+'' # QueryEscape cs
         else CHR ''%'' # upperhex ! ((of_char c :: nat) div 16)
                # upperhex ! ((of_char c :: nat) mod 16) # QueryEscape cs)
      else c # QueryEscape cs)"

text \<open>
  The form that \<^verbatim>\<open>appInstall\<close> posts. \<^verbatim>\<open>Values.Encode\<close> writes the keys in sorted
  order: \<open>client_id\<close>, \<open>client_secret\<close>, \<open>code\<close>.
\<close>

definition install_form_Encode :: "string \<Rightarrow> string \<Rightarrow> string \<Rightarrow> string" where
  "install_form_Encode code client_id client_secret =
     ''client_id='' @ QueryEscape client_id @ ''&client_secret='' @ QueryEscape client_secret
       @ ''&code='' @ QueryEscape code"

text \<open>
  \<^verbatim>\<open>strings.Replace(s, old, new, -1)\<close> for a non-empty \<open>old\<close>, which is how
  \<^verbatim>\<open>appInstall\<close> calls it: every occurrence, left to right, without overlap. (With an
  empty \<open>old\<close> Go inserts \<open>new\<close> around every character; the function below then leaves
  \<open>s\<close> as it is.)
\<close>

function strings_Replace :: "string \<Rightarrow> string \<Rightarrow> string \<Rightarrow> string" where
  "strings_Replace [] old new = []"
| "strings_Replace (c # cs) old new =
     (if old \<noteq> [] \<and> take (length old) (c # cs) = old
      then new @ strings_Replace (drop (length old) (c # cs)) old new
      else c # strings_Replace cs old new)"
  by pat_completeness auto

termination strings_Replace
  by (relation "measure (\<lambda>(s, old, new). length s)") auto

definition install_page :: "externals \<Rightarrow> 'h SlackApp \<Rightarrow> 'h effect" where
  "install_page E a =
     Response 200 (strings_Replace (INSTALLSUCCESSPAGE E) ''{{APP_NAME}}'' (Name (opts a)))
       [(''Content-Type'', ''text/html; charset=utf-8'')]"

text \<open>
  The request that \<^verbatim>\<open>appInstall\<close> sends: the \<open>code\<close> of the query string, the
  client id and the client secret, posted as a form. The result is the body of the
  reply, or \<open>None\<close> when \<^verbatim>\<open>http.Post\<close> returns an error.
\<close>

definition install_exchange :: "externals \<Rightarrow> 'h SlackApp \<Rightarrow> http_request \<Rightarrow> string option" where
  "install_exchange E a req =
     http_Post E ''https://slack.com/api/oauth.v2.access'' ''application/x-www-form-urlencoded''
       (install_form_Encode (Values_Get (URL_Query req) ''code'')
          (ClientID (opts a)) (ClientSecret (opts a)))"

text \<open>
  \<^verbatim>\<open>appInstall\<close>. The state returned is the application as \<^verbatim>\<open>appInstall\<close> itself
  leaves it. The token is added inside the test \<^verbatim>\<open>a.distCB != nil\<close>, before the
  callback runs.
\<close>

definition appInstall :: "externals \<Rightarrow> 'h SlackApp \<Rightarrow> http_request \<Rightarrow> 'h SlackApp \<times> 'h effect list"
  where
  "appInstall E a req =
     (case install_exchange E a req of
        None \<Rightarrow> (a, [Response 500 ''Unable to authorize Slack App for workspace'' []])
      | Some resp_Body \<Rightarrow>
          (case json_Decode_oauth E resp_Body of
             None \<Rightarrow>
               (a, [Response 500 ''Unable to get Slack OAuth2 Access Response for workspace'' []])
           | Some installResponse \<Rightarrow>
               if Ok installResponse then
                 (case distCB a of
                    None \<Rightarrow> (a, [install_page E a])
                  | Some cb \<Rightarrow>
                      (let a' = AddToken a \<lparr>Workspace = team_ID (Team installResponse),
                                            Token = AccessToken installResponse\<rparr>;
                           avoidDefaultPage = cb installResponse req
                       in (a', CallDistCB installResponse req
                                 # (if \<not> avoidDefaultPage then [install_page E a'] else []))))
               else (a, [Response 500 ''Slack App Access Request is not Ok'' []])))"

section \<open>Event and command dispatchers\<close>

text \<open>
  The pattern \<^verbatim>\<open>if handler, ok := listeners[key]; ok { handler(ctx) } else { ... return }\<close>:
  a registered function is called with the context, and nothing follows the call; a
  registered nil function panics when called; for an absent key the \<^verbatim>\<open>else\<close> branch
  runs.
\<close>

definition invoke ::
  "(string \<rightharpoonup> 'h handler_func) \<Rightarrow> string \<Rightarrow> SlackContext \<Rightarrow> 'h effect list \<Rightarrow> 'h effect list" where
  "invoke listeners key ctx otherwise =
     (case listeners key of
        Some (Func handler) \<Rightarrow> [Call handler ctx]
      | Some NilFunc \<Rightarrow> [Panic NilPointerDereference]
      | None \<Rightarrow> otherwise)"

definition newline :: string where
  "newline = [CHR 0x0A]"

definition interactions ::
  "externals \<Rightarrow> 'h SlackApp \<Rightarrow> http_request \<Rightarrow> 'h SlackApp \<times> 'h effect list" where
  "interactions E a req =
     (case Body_ReadAll req of
        None \<Rightarrow> (a, [Response 400 ''Invalid Body'' []])
      | Some bodyText \<Rightarrow>
          (case url_ParseQuery bodyText of
             (queries, Some err) \<Rightarrow> (a, [Response 400 ''Invalid Form Body'' []])
           | (queries, None) \<Rightarrow>
               if checkSlackSecret E a (Header_Get req ''X-Slack-Signature'')
                    (Header_Get req ''X-Slack-Request-TimeStamp'') bodyText
               then
                 (case json_Unmarshal_event E (Values_Get queries ''payload'') of
                    None \<Rightarrow> (a, [Response 400 ''Invalid JSON format'' []])
                  | Some event \<Rightarrow>
                      (case event_Team event of
                         None \<Rightarrow> (a, [Panic NilPointerDereference])
                       | Some team \<Rightarrow>
                           (case findTokenForWorkspace (Tokens (opts a)) (ID team) of
                              None \<Rightarrow>
                                (a, [Printf (''App not installed for workspace: ''
                                        @ Values_Get queries ''team_id'' @ newline),
                                     Response 400 ''App not installed for workspace'' []])
                            | Some accessToken \<Rightarrow>
                                (let ctx = \<lparr>Body = bodyText, ctx_Token = Token accessToken,
                                            Req = req\<rparr>
                                 in if Type event = ''shortcut'' then
                                      (a, invoke (shortcutListeners a) (CallbackID event) ctx
                                            [Printf (''Unrecognized shortcut: ''
                                               @ CallbackID event @ newline),
                                             Response 400 ''Unrecognized shortcut callback_id'' []])
                                    else if Type event = ''block_actions'' then
                                      (case Actions event of
                                         [] \<Rightarrow> (a, [Panic (IndexOutOfRange 0 0)])
                                       | action # _ \<Rightarrow>
                                           (a, invoke (actionListeners a) (ActionID action) ctx
                                                 [Printf (''Unrecognized action: ''
                                                    @ ActionID action @ newline),
                                                  Response 400 ''Unrecognized action action_id'' []]))
                                    else if Type event = ''view_submission'' then
                                      (case View event of
                                         None \<Rightarrow> (a, [Panic NilPointerDereference])
                                       | Some view \<Rightarrow>
                                           (a, invoke (submitListeners a) (view_CallbackID view) ctx
                                                 [Printf (''Unrecognized submission event from view: ''
                                                    @ view_CallbackID view @ newline),
                                                  Response 400
                                                    ''Unrecognized view submission callback_id'' []]))
                                    else if Type event = ''view_closed'' then
                                      (case View event of
                                         None \<Rightarrow> (a, [Panic NilPointerDereference])
                                       | Some view \<Rightarrow>
                                           (a, invoke (closeListeners a) (view_CallbackID view) ctx
                                                 [Printf (''Unrecognized closed event from view: ''
                                                    @ view_CallbackID view @ newline),
                                                  Response 400
                                                    ''Unrecognized view closed callback_id'' []]))
                                    else (a, [Response 400 ''Unrecognized interaction type'' []])))))
               else (a, [Response 401 ''Unauthorized'' []])))"

text \<open>
  \<^verbatim>\<open>commands\<close>. The source tests \<^verbatim>\<open>accessToken == nil\<close> twice, before and after it
  builds the context from \<^verbatim>\<open>accessToken.Token\<close>; both tests are kept.
\<close>

definition commands ::
  "externals \<Rightarrow> 'h SlackApp \<Rightarrow> http_request \<Rightarrow> 'h SlackApp \<times> 'h effect list" where
  "commands E a req =
     (case Body_ReadAll req of
        None \<Rightarrow> (a, [Response 400 ''Invalid Body'' []])
      | Some bodyText \<Rightarrow>
          (case url_ParseQuery bodyText of
             (queries, Some err) \<Rightarrow> (a, [Response 400 ''Invalid Form Body'' []])
           | (queries, None) \<Rightarrow>
               if checkSlackSecret E a (Header_Get req ''X-Slack-Signature'')
                    (Header_Get req ''X-Slack-Request-TimeStamp'') bodyText
               then
                 (let accessToken =
                        findTokenForWorkspace (Tokens (opts a)) (Values_Get queries ''team_id'')
                  in if accessToken = None then
                       (a, [Printf (''App not installed for workspace: ''
                               @ Values_Get queries ''team_id'' @ newline),
                            Response 400 ''App not installed for workspace'' []])
                     else
                       (let ctx = \<lparr>Body = bodyText, ctx_Token = Token (the accessToken),
                                   Req = req\<rparr>
                        in if accessToken = None then
                             (a, [Response 400 ''Unrecognized workspace'' []])
                           else
                             (a, invoke (cmds a) (Values_Get queries ''command'') ctx
                                   [Printf (''Unrecognized command: ''
                                      @ Values_Get queries ''command'' @ newline),
                                    Response 400 ''Unrecognized command'' []])))
               else (a, [Response 401 ''Unauthorized'' []])))"

definition index :: "'h SlackApp \<Rightarrow> http_request \<Rightarrow> 'h SlackApp \<times> 'h effect list" where
  "index a req = (a, [Response 200 [] []])"

section \<open>Stages of a request\<close>

text \<open>
  The first three steps are the same in \<^verbatim>\<open>interactions\<close> and \<^verbatim>\<open>commands\<close>: the body
  is read, it is parsed as a form, and the signature of the headers is checked against
  it. \<open>authenticated\<close> holds of a request that passes all three, with the body read
  and the form values parsed.
\<close>

definition authenticated ::
  "externals \<Rightarrow> 'h SlackApp \<Rightarrow> http_request \<Rightarrow> string \<Rightarrow> url_Values \<Rightarrow> bool" where
  "authenticated E a req bodyText queries =
     (Body_ReadAll req = Some bodyText
      \<and> url_ParseQuery bodyText = (queries, None)
      \<and> checkSlackSecret E a (Header_Get req ''X-Slack-Signature'')
            (Header_Get req ''X-Slack-Request-TimeStamp'') bodyText)"

text \<open>
  \<open>resolved\<close> holds when the \<open>payload\<close> field decodes to the event, the event names a
  team, and the registry has the token for that team.
\<close>

definition resolved ::
  "externals \<Rightarrow> 'h SlackApp \<Rightarrow> url_Values \<Rightarrow> SlackInteractionEvent \<Rightarrow> SlackAuthToken \<Rightarrow> bool" where
  "resolved E a queries event accessToken =
     (json_Unmarshal_event E (Values_Get queries ''payload'') = Some event
      \<and> (case event_Team event of
            None \<Rightarrow> False
          | Some team \<Rightarrow> findTokenForWorkspace (Tokens (opts a)) (ID team) = Some accessToken))"

text \<open>A request is rejected when a response with status 400, 401 or 500 is written.\<close>

fun rejected :: "'h effect list \<Rightarrow> bool" where
  "rejected [] = False"
| "rejected (Response code body headers # effects) =
     (code = 400 \<or> code = 401 \<or> code = 500 \<or> rejected effects)"
| "rejected (e # effects) = rejected effects"

section \<open>Example requests\<close>

text \<open>
  Concrete requests, used to evaluate the handlers. The signing secret is \<open>s\<close> and
  the timestamp \<open>1000\<close>. \<open>sample_externals\<close> gives the library results at these
  requests: the HMAC-SHA256 digest of \<open>v0:1000:\<close> body under the key \<open>s\<close>, the
  events that the payloads decode to, and the replies of the OAuth2 endpoint.
\<close>

definition payload_click :: string where
  \<open>payload_click =
     ''{"type":"block_actions","team":{"id":"T1"},"actions":[{"action_id":"clicked_me"}]}''\<close>

definition event_click :: SlackInteractionEvent where
  \<open>event_click =
     \<lparr>Type = ''block_actions'', event_Team = Some \<lparr>ID = ''T1'', Domain = []\<rparr>,
      Actions = [\<lparr>ActionID = ''clicked_me'', BlockID = [], Value = [], action_Type = [], ActionTS = []\<rparr>],
      View = None, CallbackID = []\<rparr>\<close>

definition payload_click_two :: string where
  \<open>payload_click_two =
     ''{"type":"block_actions","team":{"id":"T1"},"actions":[{"action_id":"clicked_me"},{"action_id":"other"}]}''\<close>

definition event_click_two :: SlackInteractionEvent where
  \<open>event_click_two =
     \<lparr>Type = ''block_actions'', event_Team = Some \<lparr>ID = ''T1'', Domain = []\<rparr>,
      Actions = [\<lparr>ActionID = ''clicked_me'', BlockID = [], Value = [], action_Type = [], ActionTS = []\<rparr>, \<lparr>ActionID = ''other'', BlockID = [], Value = [], action_Type = [], ActionTS = []\<rparr>],
      View = None, CallbackID = []\<rparr>\<close>

definition payload_no_actions :: string where
  \<open>payload_no_actions =
     ''{"type":"block_actions","team":{"id":"T1"}}''\<close>

definition event_no_actions :: SlackInteractionEvent where
  \<open>event_no_actions =
     \<lparr>Type = ''block_actions'', event_Team = Some \<lparr>ID = ''T1'', Domain = []\<rparr>,
      Actions = [],
      View = None, CallbackID = []\<rparr>\<close>

definition payload_shortcut :: string where
  \<open>payload_shortcut =
     ''{"type":"shortcut","team":{"id":"T1"},"callback_id":"open_modal"}''\<close>

definition event_shortcut :: SlackInteractionEvent where
  \<open>event_shortcut =
     \<lparr>Type = ''shortcut'', event_Team = Some \<lparr>ID = ''T1'', Domain = []\<rparr>,
      Actions = [],
      View = None, CallbackID = ''open_modal''\<rparr>\<close>

definition payload_shortcut_T2 :: string where
  \<open>payload_shortcut_T2 =
     ''{"type":"shortcut","team":{"id":"T2"},"callback_id":"open_modal"}''\<close>

definition event_shortcut_T2 :: SlackInteractionEvent where
  \<open>event_shortcut_T2 =
     \<lparr>Type = ''shortcut'', event_Team = Some \<lparr>ID = ''T2'', Domain = []\<rparr>,
      Actions = [],
      View = None, CallbackID = ''open_modal''\<rparr>\<close>

definition payload_submit :: string where
  \<open>payload_submit =
     ''{"type":"view_submission","team":{"id":"T1"},"view":{"callback_id":"modal_done"}}''\<close>

definition event_submit :: SlackInteractionEvent where
  \<open>event_submit =
     \<lparr>Type = ''view_submission'', event_Team = Some \<lparr>ID = ''T1'', Domain = []\<rparr>,
      Actions = [],
      View = Some \<lparr>view_ID = [], view_TeamID = [], view_Type = [], view_CallbackID = ''modal_done''\<rparr>, CallbackID = []\<rparr>\<close>

definition payload_closed :: string where
  \<open>payload_closed =
     ''{"type":"view_closed","team":{"id":"T1"},"view":{"callback_id":"unknown_view"}}''\<close>

definition event_closed :: SlackInteractionEvent where
  \<open>event_closed =
     \<lparr>Type = ''view_closed'', event_Team = Some \<lparr>ID = ''T1'', Domain = []\<rparr>,
      Actions = [],
      View = Some \<lparr>view_ID = [], view_TeamID = [], view_Type = [], view_CallbackID = ''unknown_view''\<rparr>, CallbackID = []\<rparr>\<close>

definition payload_other :: string where
  \<open>payload_other =
     ''{"type":"message_action","team":{"id":"T1"}}''\<close>

definition event_other :: SlackInteractionEvent where
  \<open>event_other =
     \<lparr>Type = ''message_action'', event_Team = Some \<lparr>ID = ''T1'', Domain = []\<rparr>,
      Actions = [],
      View = None, CallbackID = []\<rparr>\<close>

definition body_ping :: string where
  \<open>body_ping =
     ''team_id=T1&command=%2Fping''\<close>

definition body_ping_T2 :: string where
  \<open>body_ping_T2 =
     ''team_id=T2&command=%2Fping''\<close>

definition body_pong :: string where
  \<open>body_pong =
     ''team_id=T1&command=%2Fpong''\<close>

definition body_click :: string where
  \<open>body_click =
     ''payload=%7B%22type%22%3A%22block_actions%22%2C%22team%22%3A%7B%22id%22%3A%22T1%22%7D%2C%22actions%22%3A%5B%7B%22action_id%22%3A%22clicked_me%22%7D%5D%7D''\<close>

definition body_click_two :: string where
  \<open>body_click_two =
     ''payload=%7B%22type%22%3A%22block_actions%22%2C%22team%22%3A%7B%22id%22%3A%22T1%22%7D%2C%22actions%22%3A%5B%7B%22action_id%22%3A%22clicked_me%22%7D%2C%7B%22action_id%22%3A%22other%22%7D%5D%7D''\<close>

definition body_no_actions :: string where
  \<open>body_no_actions =
     ''payload=%7B%22type%22%3A%22block_actions%22%2C%22team%22%3A%7B%22id%22%3A%22T1%22%7D%7D''\<close>

definition body_shortcut :: string where
  \<open>body_shortcut =
     ''payload=%7B%22type%22%3A%22shortcut%22%2C%22team%22%3A%7B%22id%22%3A%22T1%22%7D%2C%22callback_id%22%3A%22open_modal%22%7D''\<close>

definition body_shortcut_T2 :: string where
  \<open>body_shortcut_T2 =
     ''payload=%7B%22type%22%3A%22shortcut%22%2C%22team%22%3A%7B%22id%22%3A%22T2%22%7D%2C%22callback_id%22%3A%22open_modal%22%7D''\<close>

definition body_submit :: string where
  \<open>body_submit =
     ''payload=%7B%22type%22%3A%22view_submission%22%2C%22team%22%3A%7B%22id%22%3A%22T1%22%7D%2C%22view%22%3A%7B%22callback_id%22%3A%22modal_done%22%7D%7D''\<close>

definition body_closed :: string where
  \<open>body_closed =
     ''payload=%7B%22type%22%3A%22view_closed%22%2C%22team%22%3A%7B%22id%22%3A%22T1%22%7D%2C%22view%22%3A%7B%22callback_id%22%3A%22unknown_view%22%7D%7D''\<close>

definition body_other :: string where
  \<open>body_other =
     ''payload=%7B%22type%22%3A%22message_action%22%2C%22team%22%3A%7B%22id%22%3A%22T1%22%7D%7D''\<close>

definition digest_ping :: string where
  \<open>digest_ping =
     [CHR 0x09, CHR 0x81, CHR 0x21, CHR 0x6d, CHR 0x4c, CHR 0x08, CHR 0xf1, CHR 0x5a,
      CHR 0x5d, CHR 0xa6, CHR 0x24, CHR 0x2b, CHR 0xa1, CHR 0xb3, CHR 0xa7, CHR 0x36,
      CHR 0x90, CHR 0xa0, CHR 0xdc, CHR 0x32, CHR 0x86, CHR 0x3c, CHR 0x43, CHR 0x54,
      CHR 0x81, CHR 0x44, CHR 0x06, CHR 0x86, CHR 0x0e, CHR 0x46, CHR 0x55, CHR 0xfe]\<close>

definition signature_ping :: string where
  \<open>signature_ping =
     ''v0=0981216d4c08f15a5da6242ba1b3a73690a0dc32863c4354814406860e4655fe''\<close>

definition digest_ping_T2 :: string where
  \<open>digest_ping_T2 =
     [CHR 0x07, CHR 0xe9, CHR 0xe9, CHR 0xda, CHR 0x5f, CHR 0x31, CHR 0x8b, CHR 0x92,
      CHR 0x87, CHR 0xbf, CHR 0x1e, CHR 0x0b, CHR 0x6d, CHR 0x56, CHR 0xc2, CHR 0xa4,
      CHR 0x5c, CHR 0xc7, CHR 0xaa, CHR 0x39, CHR 0x16, CHR 0x08, CHR 0x69, CHR 0x18,
      CHR 0x6e, CHR 0x70, CHR 0xb6, CHR 0x8a, CHR 0xb4, CHR 0xe9, CHR 0xec, CHR 0x28]\<close>


definition digest_pong :: string where
  \<open>digest_pong =
     [CHR 0x3c, CHR 0xec, CHR 0xbc, CHR 0x50, CHR 0x9c, CHR 0x39, CHR 0xad, CHR 0x2b,
      CHR 0x44, CHR 0x9a, CHR 0xa2, CHR 0xa8, CHR 0xf5, CHR 0x96, CHR 0xc9, CHR 0x54,
      CHR 0x69, CHR 0xd5, CHR 0x81, CHR 0xac, CHR 0xbf, CHR 0xba, CHR 0x65, CHR 0x53,
      CHR 0x32, CHR 0xca, CHR 0xad, CHR 0x7a, CHR 0x94, CHR 0x21, CHR 0xa7, CHR 0xf4]\<close>

definition signature_pong :: string where
  \<open>signature_pong =
     ''v0=3cecbc509c39ad2b449aa2a8f596c95469d581acbfba655332caad7a9421a7f4''\<close>

definition digest_click :: string where
  \<open>digest_click =
     [CHR 0x5f, CHR 0xf6, CHR 0xa8, CHR 0x98, CHR 0x72, CHR 0x05, CHR 0x05, CHR 0x3d,
      CHR 0x68, CHR 0x2d, CHR 0x40, CHR 0xa3, CHR 0xd9, CHR 0xcf, CHR 0x88, CHR 0xa4,
      CHR 0x1e, CHR 0xab, CHR 0x00, CHR 0xfa, CHR 0xbf, CHR 0xf5, CHR 0xa5, CHR 0xaf,
      CHR 0x5b, CHR 0x7f, CHR 0xb4, CHR 0xf1, CHR 0x06, CHR 0x89, CHR 0xb9, CHR 0x6a]\<close>

definition signature_click :: string where
  \<open>signature_click =
     ''v0=5ff6a8987205053d682d40a3d9cf88a41eab00fabff5a5af5b7fb4f10689b96a''\<close>

definition digest_click_two :: string where
  \<open>digest_click_two =
     [CHR 0xb4, CHR 0xe2, CHR 0x26, CHR 0xec, CHR 0xc3, CHR 0xb9, CHR 0xff, CHR 0x82,
      CHR 0x50, CHR 0x20, CHR 0xf9, CHR 0xf7, CHR 0x67, CHR 0x44, CHR 0x81, CHR 0x70,
      CHR 0x03, CHR 0x7e, CHR 0x11, CHR 0x62, CHR 0xe4, CHR 0x5c, CHR 0xdc, CHR 0xf9,
      CHR 0xdf, CHR 0xb8, CHR 0x70, CHR 0x0d, CHR 0xca, CHR 0xe4, CHR 0xb4, CHR 0x45]\<close>

definition signature_click_two :: string where
  \<open>signature_click_two =
     ''v0=b4e226ecc3b9ff825020f9f767448170037e1162e45cdcf9dfb8700dcae4b445''\<close>

definition digest_no_actions :: string where
  \<open>digest_no_actions =
     [CHR 0xf7, CHR 0x25, CHR 0x6b, CHR 0x94, CHR 0x25, CHR 0x09, CHR 0x7c, CHR 0x1b,
      CHR 0xd8, CHR 0x2d, CHR 0xe3, CHR 0xb7, CHR 0x7c, CHR 0x2d, CHR 0x81, CHR 0x25,
      CHR 0x43, CHR 0xd4, CHR 0x68, CHR 0xc8, CHR 0x4c, CHR 0xc8, CHR 0xae, CHR 0x43,
      CHR 0x28, CHR 0x9b, CHR 0x62, CHR 0xb7, CHR 0x3c, CHR 0x4c, CHR 0x89, CHR 0xaa]\<close>

definition signature_no_actions :: string where
  \<open>signature_no_actions =
     ''v0=f7256b9425097c1bd82de3b77c2d812543d468c84cc8ae43289b62b73c4c89aa''\<close>

definition digest_shortcut :: string where
  \<open>digest_shortcut =
     [CHR 0xfd, CHR 0xbd, CHR 0x96, CHR 0xbc, CHR 0x9b, CHR 0xb3, CHR 0x19, CHR 0x73,
      CHR 0x50, CHR 0xf1, CHR 0x63, CHR 0xb6, CHR 0x5d, CHR 0x2b, CHR 0x6a, CHR 0x53,
      CHR 0x18, CHR 0xf4, CHR 0x2d, CHR 0xb6, CHR 0xe5, CHR 0x02, CHR 0x29, CHR 0x1d,
      CHR 0x09, CHR 0xca, CHR 0xc9, CHR 0x35, CHR 0x1c, CHR 0xbc, CHR 0xda, CHR 0x2a]\<close>

definition signature_shortcut :: string where
  \<open>signature_shortcut =
     ''v0=fdbd96bc9bb3197350f163b65d2b6a5318f42db6e502291d09cac9351cbcda2a''\<close>

definition digest_shortcut_T2 :: string where
  \<open>digest_shortcut_T2 =
     [CHR 0xad, CHR 0xef, CHR 0x22, CHR 0x7e, CHR 0xed, CHR 0x97, CHR 0xd8, CHR 0x76,
      CHR 0xa7, CHR 0x7e, CHR 0x27, CHR 0xde, CHR 0x19, CHR 0xad, CHR 0x08, CHR 0x83,
      CHR 0x67, CHR 0x93, CHR 0x9e, CHR 0x13, CHR 0x2c, CHR 0x0d, CHR 0x5d, CHR 0x92,
      CHR 0x3d, CHR 0x23, CHR 0xc6, CHR 0xec, CHR 0x1e, CHR 0xa1, CHR 0x68, CHR 0x0a]\<close>


definition digest_submit :: string where
  \<open>digest_submit =
     [CHR 0xad, CHR 0xa8, CHR 0x90, CHR 0xf3, CHR 0xa9, CHR 0xf4, CHR 0x3c, CHR 0x9a,
      CHR 0x99, CHR 0xa7, CHR 0xc7, CHR 0x53, CHR 0x46, CHR 0xb3, CHR 0x31, CHR 0x48,
      CHR 0x87, CHR 0x7a, CHR 0x88, CHR 0x87, CHR 0x6a, CHR 0x72, CHR 0xac, CHR 0xcd,
      CHR 0x10, CHR 0x7e, CHR 0xcc, CHR 0x76, CHR 0xea, CHR 0x8f, CHR 0xac, CHR 0xbf]\<close>

definition signature_submit :: string where
  \<open>signature_submit =
     ''v0=ada890f3a9f43c9a99a7c75346b33148877a88876a72accd107ecc76ea8facbf''\<close>

definition digest_closed :: string where
  \<open>digest_closed =
     [CHR 0x53, CHR 0xd8, CHR 0x2a, CHR 0x98, CHR 0x1a, CHR 0x90, CHR 0x1c, CHR 0x37,
      CHR 0x5c, CHR 0x63, CHR 0x7f, CHR 0xdf, CHR 0xc4, CHR 0x28, CHR 0xaf, CHR 0xfd,
      CHR 0xfc, CHR 0x9a, CHR 0xb5, CHR 0x5b, CHR 0xe9, CHR 0x99, CHR 0xe6, CHR 0xf0,
      CHR 0xe2, CHR 0x56, CHR 0xa6, CHR 0x73, CHR 0x81, CHR 0x51, CHR 0x11, CHR 0xbe]\<close>

definition signature_closed :: string where
  \<open>signature_closed =
     ''v0=53d82a981a901c375c637fdfc428affdfc9ab55be999e6f0e256a673815111be''\<close>

definition digest_other :: string where
  \<open>digest_other =
     [CHR 0x4f, CHR 0x26, CHR 0x4f, CHR 0xe4, CHR 0xca, CHR 0x5e, CHR 0xd5, CHR 0x32,
      CHR 0xe4, CHR 0x55, CHR 0x58, CHR 0x90, CHR 0x24, CHR 0x1e, CHR 0xdd, CHR 0x25,
      CHR 0xbe, CHR 0x56, CHR 0x8a, CHR 0x8d, CHR 0x54, CHR 0x8e, CHR 0x8f, CHR 0x8c,
      CHR 0x3c, CHR 0x72, CHR 0x8e, CHR 0x91, CHR 0x35, CHR 0xe3, CHR 0xbd, CHR 0x0d]\<close>

definition signature_other :: string where
  \<open>signature_other =
     ''v0=4f264fe4ca5ed532e4555890241edd25be568a8d548e8f8c3c728e9135e3bd0d''\<close>

definition sample_digests :: "(string \<times> string) list" where
  "sample_digests =
     [(''v0:1000:'' @ body_ping, digest_ping),
      (''v0:1000:'' @ body_ping_T2, digest_ping_T2),
      (''v0:1000:'' @ body_pong, digest_pong),
      (''v0:1000:'' @ body_click, digest_click),
      (''v0:1000:'' @ body_click_two, digest_click_two),
      (''v0:1000:'' @ body_no_actions, digest_no_actions),
      (''v0:1000:'' @ body_shortcut, digest_shortcut),
      (''v0:1000:'' @ body_shortcut_T2, digest_shortcut_T2),
      (''v0:1000:'' @ body_submit, digest_submit),
      (''v0:1000:'' @ body_closed, digest_closed),
      (''v0:1000:'' @ body_other, digest_other)]"

definition sample_events :: "(string \<times> SlackInteractionEvent) list" where
  "sample_events =
     [(payload_click, event_click),
      (payload_click_two, event_click_two),
      (payload_no_actions, event_no_actions),
      (payload_shortcut, event_shortcut),
      (payload_shortcut_T2, event_shortcut_T2),
      (payload_submit, event_submit),
      (payload_closed, event_closed),
      (payload_other, event_other)]"

definition oauth_reply :: "bool \<Rightarrow> string \<Rightarrow> string \<Rightarrow> SlackOauth2Response" where
  "oauth_reply ok access_token team_id =
     \<lparr>Ok = ok, AccessToken = access_token, TokenType = [], Scope = [], BotUserID = [], AppID = [],
      Team = \<lparr>team_Name = [], team_ID = team_id\<rparr>,
      Enterprise = \<lparr>team_Name = [], team_ID = []\<rparr>,
      AuthedUser = \<lparr>user_ID = [], user_Scope = [], user_AccessToken = [], user_TokenType = []\<rparr>\<rparr>"

definition reply_T9 :: string where
  \<open>reply_T9 = ''{"ok":true,"access_token":"xoxb-T9","team":{"id":"T9"}}''\<close>

definition reply_T1_again :: string where
  \<open>reply_T1_again = ''{"ok":true,"access_token":"xoxb-new","team":{"id":"T1"}}''\<close>

definition reply_not_ok :: string where
  \<open>reply_not_ok = ''{"ok":false,"error":"invalid_code"}''\<close>

definition reply_garbled :: string where
  \<open>reply_garbled = ''<html>''\<close>

definition sample_replies :: "(string \<times> string) list" where
  "sample_replies =
     [(''client_id=1234.5678&client_secret=c5&code=abc123'', reply_T9),
      (''client_id=1234.5678&client_secret=c5&code=again'', reply_T1_again),
      (''client_id=1234.5678&client_secret=c5&code=expired'', reply_not_ok),
      (''client_id=1234.5678&client_secret=c5&code=garbled'', reply_garbled)]"

definition sample_oauth :: "(string \<times> SlackOauth2Response) list" where
  "sample_oauth =
     [(reply_T9, oauth_reply True ''xoxb-T9'' ''T9''),
      (reply_T1_again, oauth_reply True ''xoxb-new'' ''T1''),
      (reply_not_ok, oauth_reply False [] [])]"

definition sample_externals :: externals where
  "sample_externals =
     \<lparr>hmac_sha256 =
        (\<lambda>key data. if key = ''s'' then (case map_of sample_digests data of Some d \<Rightarrow> d | None \<Rightarrow> [])
                    else []),
      json_Unmarshal_event = map_of sample_events,
      json_Decode_oauth = map_of sample_oauth,
      http_Post =
        (\<lambda>url content_type body.
           if url = ''https://slack.com/api/oauth.v2.access''
              \<and> content_type = ''application/x-www-form-urlencoded''
           then map_of sample_replies body else None),
      INSTALLSUCCESSPAGE = ''<h1>{{APP_NAME}} is installed</h1>''\<rparr>"

text \<open>
  An application with one token, for workspace \<open>T1\<close>, and one handler in each
  table; handlers are named by strings.
\<close>

definition sample_options :: SlackAppOptions where
  "sample_options =
     \<lparr>Name = ''Dev Bot'', Prefix = ''dev'',
      Tokens = [\<lparr>Workspace = ''T1'', Token = ''xoxb-T1''\<rparr>],
      ClientSecret = ''c5'', ClientID = ''1234.5678'', SigningSecret = ''s''\<rparr>"

definition sample_app :: "string SlackApp" where
  "sample_app =
     OnViewClose
       (OnViewSubmission
          (OnShortcut
             (OnAction
                (OnCommand (InitializeSlackApp sample_options) ''/ping'' (Func ''on_ping''))
                ''clicked_me'' (Func ''on_click''))
             ''open_modal'' (Func ''on_shortcut''))
          ''modal_done'' (Func ''on_submit''))
       ''modal_closed'' (Func ''on_close'')"

definition signed_request :: "string \<Rightarrow> string \<Rightarrow> http_request" where
  "signed_request body signature =
     \<lparr>Body_ReadAll = Some body,
      Header_Get =
        (\<lambda>k. if k = ''X-Slack-Signature'' then signature
             else if k = ''X-Slack-Request-TimeStamp'' then ''1000'' else []),
      URL_RawQuery = []\<rparr>"

definition install_request :: "string \<Rightarrow> http_request" where
  "install_request raw_query =
     \<lparr>Body_ReadAll = Some [], Header_Get = (\<lambda>k. []), URL_RawQuery = raw_query\<rparr>"

section \<open>Properties of the token registry\<close>

lemma find_append:
  "findTokenForWorkspace (ts @ [token]) workspace =
     (case findTokenForWorkspace ts workspace of
        Some old \<Rightarrow> Some old
      | None \<Rightarrow> if Workspace token = workspace then Some token else None)"
  by (induction ts) simp_all

lemma find_None_iff:
  "(findTokenForWorkspace ts workspace = None) = (workspace \<notin> Workspace ` set ts)"
  by (induction ts) auto

lemma find_first_match:
  "findTokenForWorkspace ts workspace =
     (case filter (\<lambda>t. Workspace t = workspace) ts of [] \<Rightarrow> None | t # _ \<Rightarrow> Some t)"
  by (induction ts) simp_all

lemma Tokens_AddToken [simp]: "Tokens (opts (AddToken a token)) = Tokens (opts a) @ [token]"
  by (simp add: AddToken_def)

text \<open>
  Claim C6, as the code has it. \<^verbatim>\<open>AddToken\<close> appends and \<^verbatim>\<open>findTokenForWorkspace\<close>
  returns the first entry of the workspace in insertion order. So a lookup after
  registering \<open>{W, t}\<close> returns that token when \<open>W\<close> had no entry before, and the
  entry that was already there otherwise. A workspace with no entry is not found:
  there is no default token.
\<close>

theorem C6_registry_lookup:
  "findTokenForWorkspace (Tokens (opts (AddToken a \<lparr>Workspace = W, Token = t\<rparr>))) W =
     (case findTokenForWorkspace (Tokens (opts a)) W of
        None \<Rightarrow> Some \<lparr>Workspace = W, Token = t\<rparr>
      | Some old \<Rightarrow> Some old)
   \<and> (findTokenForWorkspace ts W = None) = (W \<notin> Workspace ` set ts)
   \<and> findTokenForWorkspace ts W =
       (case filter (\<lambda>t. Workspace t = W) ts of [] \<Rightarrow> None | t # _ \<Rightarrow> Some t)"
proof (intro conjI)
  show "findTokenForWorkspace (Tokens (opts (AddToken a \<lparr>Workspace = W, Token = t\<rparr>))) W =
     (case findTokenForWorkspace (Tokens (opts a)) W of
        None \<Rightarrow> Some \<lparr>Workspace = W, Token = t\<rparr>
      | Some old \<Rightarrow> Some old)"
    by (simp add: find_append split: option.split)
  show "(findTokenForWorkspace ts W = None) = (W \<notin> Workspace ` set ts)"
    by (rule find_None_iff)
  show "findTokenForWorkspace ts W =
       (case filter (\<lambda>t. Workspace t = W) ts of [] \<Rightarrow> None | t # _ \<Rightarrow> Some t)"
    by (rule find_first_match)
qed

text \<open>
  Claim C6 as stated fails: with an entry for \<open>T1\<close> already in the registry, registering
  a second token for \<open>T1\<close> and looking \<open>T1\<close> up returns the first one.
\<close>

theorem C6_counterexample:
  "findTokenForWorkspace
     (Tokens (opts (AddToken
        (InitializeSlackApp
           \<lparr>Name = ''Dev Bot'', Prefix = ''dev'',
            Tokens = [\<lparr>Workspace = ''T1'', Token = ''old''\<rparr>],
            ClientSecret = ''cs'', ClientID = ''ci'', SigningSecret = ''s''\<rparr> :: unit SlackApp)
        \<lparr>Workspace = ''T1'', Token = ''new''\<rparr>))) ''T1''
   = Some \<lparr>Workspace = ''T1'', Token = ''old''\<rparr>
   \<and> \<lparr>Workspace = ''T1'', Token = ''old''\<rparr> \<noteq> \<lparr>Workspace = ''T1'', Token = ''new''\<rparr>"
  by (simp add: InitializeSlackApp_def)

section \<open>The signature verifier computes the construction of the specification\<close>

lemma hextable_nth: "n < 16 \<Longrightarrow> hextable ! n \<in> set hextable"
  by (rule nth_mem) (simp add: hextable_def)

lemma hex_EncodeToString_digits:
  "length (hex_EncodeToString bs) = 2 * length bs \<and> set (hex_EncodeToString bs) \<subseteq> set hextable"
proof (induction bs)
  case Nil
  show ?case by simp
next
  case (Cons b bs)
  have hi: "(of_char b :: nat) div 16 < 16"
    using nat_of_char_less_256 [of b] by arith
  have lo: "(of_char b :: nat) mod 16 < 16" by simp
  from Cons hextable_nth [OF hi] hextable_nth [OF lo] show ?case by simp
qed

text \<open>
  Claim C3: for every signing secret (the one of the application), timestamp, body and
  provided signature, \<^verbatim>\<open>checkSlackSecret\<close> returns true exactly when the provided
  signature is \<open>v0=\<close> followed by the lower-case hexadecimal digest, keyed by the signing
  secret, of \<open>v0:\<close> timestamp \<open>:\<close> body. The encoding of a digest has two characters
  for each byte, all of them digits or letters \<open>a\<close> to \<open>f\<close>. The verifier is a total
  function of its arguments: it changes no state and has no failing branch.
\<close>

theorem C3_checkSlackSecret_refines_spec:
  "checkSlackSecret E a provided_signature timestamp raw_body =
     spec_verify (hmac_sha256 E) (SigningSecret (opts a)) timestamp raw_body provided_signature
   \<and> length (hex_EncodeToString digest) = 2 * length digest
   \<and> set (hex_EncodeToString digest) \<subseteq> set ''0123456789abcdef''"
  using hex_EncodeToString_digits [of digest]
  by (auto simp: checkSlackSecret_def spec_verify_def hextable_def)

section \<open>Evaluation of the example requests\<close>

lemmas eval_simps =
  url_ParseQuery_def parseQuery.simps strings_Cut_def ishex_def unhex_def Values_append_def
  Values_Get_def char_of_def bit_Suc_0_iff hextable_def

lemma sample_app_fields:
  "opts sample_app = sample_options"
  "distCB sample_app = None"
  "cmds sample_app = [''/ping'' \<mapsto> Func ''on_ping'']"
  "shortcutListeners sample_app = [''open_modal'' \<mapsto> Func ''on_shortcut'']"
  "actionListeners sample_app = [''clicked_me'' \<mapsto> Func ''on_click'']"
  "submitListeners sample_app = [''modal_done'' \<mapsto> Func ''on_submit'']"
  "closeListeners sample_app = [''modal_closed'' \<mapsto> Func ''on_close'']"
  by (simp_all add: sample_app_def InitializeSlackApp_def OnCommand_def OnAction_def
        OnShortcut_def OnViewSubmission_def OnViewClose_def sample_options_def)

lemmas body_defs =
  body_ping_def body_ping_T2_def body_pong_def body_click_def
  body_click_two_def body_no_actions_def body_shortcut_def body_shortcut_T2_def
  body_submit_def body_closed_def body_other_def

lemmas payload_defs =
  payload_click_def payload_click_two_def payload_no_actions_def payload_shortcut_def
  payload_shortcut_T2_def payload_submit_def payload_closed_def payload_other_def

lemma parse_ping: "url_ParseQuery body_ping = ([''team_id'' \<mapsto> [''T1''], ''command'' \<mapsto> [''/ping'']], None)"
  by (simp add: body_ping_def eval_simps)

lemma verify_ping:
  "checkSlackSecret sample_externals sample_app signature_ping ''1000'' body_ping"
  by (simp add: checkSlackSecret_def sample_externals_def sample_app_fields sample_options_def
        sample_digests_def body_defs signature_ping_def digest_ping_def hextable_def)

lemma authenticated_ping:
  "authenticated sample_externals sample_app (signed_request body_ping signature_ping) body_ping
     [''team_id'' \<mapsto> [''T1''], ''command'' \<mapsto> [''/ping'']]"
  using parse_ping verify_ping by (simp add: authenticated_def signed_request_def)




lemma parse_pong: "url_ParseQuery body_pong = ([''team_id'' \<mapsto> [''T1''], ''command'' \<mapsto> [''/pong'']], None)"
  by (simp add: body_pong_def eval_simps)

lemma verify_pong:
  "checkSlackSecret sample_externals sample_app signature_pong ''1000'' body_pong"
  by (simp add: checkSlackSecret_def sample_externals_def sample_app_fields sample_options_def
        sample_digests_def body_defs signature_pong_def digest_pong_def hextable_def)

lemma authenticated_pong:
  "authenticated sample_externals sample_app (signed_request body_pong signature_pong) body_pong
     [''team_id'' \<mapsto> [''T1''], ''command'' \<mapsto> [''/pong'']]"
  using parse_pong verify_pong by (simp add: authenticated_def signed_request_def)

lemma parse_click: "url_ParseQuery body_click = ([''payload'' \<mapsto> [payload_click]], None)"
  by (simp add: body_click_def payload_click_def eval_simps)

lemma verify_click:
  "checkSlackSecret sample_externals sample_app signature_click ''1000'' body_click"
  by (simp add: checkSlackSecret_def sample_externals_def sample_app_fields sample_options_def
        sample_digests_def body_defs signature_click_def digest_click_def hextable_def)

lemma authenticated_click:
  "authenticated sample_externals sample_app (signed_request body_click signature_click) body_click
     [''payload'' \<mapsto> [payload_click]]"
  using parse_click verify_click by (simp add: authenticated_def signed_request_def)

lemma parse_click_two: "url_ParseQuery body_click_two = ([''payload'' \<mapsto> [payload_click_two]], None)"
  by (simp add: body_click_two_def payload_click_two_def eval_simps)

lemma verify_click_two:
  "checkSlackSecret sample_externals sample_app signature_click_two ''1000'' body_click_two"
  by (simp add: checkSlackSecret_def sample_externals_def sample_app_fields sample_options_def
        sample_digests_def body_defs signature_click_two_def digest_click_two_def hextable_def)

lemma authenticated_click_two:
  "authenticated sample_externals sample_app (signed_request body_click_two signature_click_two) body_click_two
     [''payload'' \<mapsto> [payload_click_two]]"
  using parse_click_two verify_click_two by (simp add: authenticated_def signed_request_def)

lemma parse_no_actions: "url_ParseQuery body_no_actions = ([''payload'' \<mapsto> [payload_no_actions]], None)"
  by (simp add: body_no_actions_def payload_no_actions_def eval_simps)

lemma verify_no_actions:
  "checkSlackSecret sample_externals sample_app signature_no_actions ''1000'' body_no_actions"
  by (simp add: checkSlackSecret_def sample_externals_def sample_app_fields sample_options_def
        sample_digests_def body_defs signature_no_actions_def digest_no_actions_def hextable_def)

lemma authenticated_no_actions:
  "authenticated sample_externals sample_app (signed_request body_no_actions signature_no_actions) body_no_actions
     [''payload'' \<mapsto> [payload_no_actions]]"
  using parse_no_actions verify_no_actions by (simp add: authenticated_def signed_request_def)

lemma parse_shortcut: "url_ParseQuery body_shortcut = ([''payload'' \<mapsto> [payload_shortcut]], None)"
  by (simp add: body_shortcut_def payload_shortcut_def eval_simps)

lemma verify_shortcut:
  "checkSlackSecret sample_externals sample_app signature_shortcut ''1000'' body_shortcut"
  by (simp add: checkSlackSecret_def sample_externals_def sample_app_fields sample_options_def
        sample_digests_def body_defs signature_shortcut_def digest_shortcut_def hextable_def)

lemma authenticated_shortcut:
  "authenticated sample_externals sample_app (signed_request body_shortcut signature_shortcut) body_shortcut
     [''payload'' \<mapsto> [payload_shortcut]]"
  using parse_shortcut verify_shortcut by (simp add: authenticated_def signed_request_def)




lemma parse_submit: "url_ParseQuery body_submit = ([''payload'' \<mapsto> [payload_submit]], None)"
  by (simp add: body_submit_def payload_submit_def eval_simps)

lemma verify_submit:
  "checkSlackSecret sample_externals sample_app signature_submit ''1000'' body_submit"
  by (simp add: checkSlackSecret_def sample_externals_def sample_app_fields sample_options_def
        sample_digests_def body_defs signature_submit_def digest_submit_def hextable_def)

lemma authenticated_submit:
  "authenticated sample_externals sample_app (signed_request body_submit signature_submit) body_submit
     [''payload'' \<mapsto> [payload_submit]]"
  using parse_submit verify_submit by (simp add: authenticated_def signed_request_def)

lemma parse_closed: "url_ParseQuery body_closed = ([''payload'' \<mapsto> [payload_closed]], None)"
  by (simp add: body_closed_def payload_closed_def eval_simps)

lemma verify_closed:
  "checkSlackSecret sample_externals sample_app signature_closed ''1000'' body_closed"
  by (simp add: checkSlackSecret_def sample_externals_def sample_app_fields sample_options_def
        sample_digests_def body_defs signature_closed_def digest_closed_def hextable_def)

lemma authenticated_closed:
  "authenticated sample_externals sample_app (signed_request body_closed signature_closed) body_closed
     [''payload'' \<mapsto> [payload_closed]]"
  using parse_closed verify_closed by (simp add: authenticated_def signed_request_def)

lemma parse_other: "url_ParseQuery body_other = ([''payload'' \<mapsto> [payload_other]], None)"
  by (simp add: body_other_def payload_other_def eval_simps)

lemma verify_other:
  "checkSlackSecret sample_externals sample_app signature_other ''1000'' body_other"
  by (simp add: checkSlackSecret_def sample_externals_def sample_app_fields sample_options_def
        sample_digests_def body_defs signature_other_def digest_other_def hextable_def)

lemma authenticated_other:
  "authenticated sample_externals sample_app (signed_request body_other signature_other) body_other
     [''payload'' \<mapsto> [payload_other]]"
  using parse_other verify_other by (simp add: authenticated_def signed_request_def)

section \<open>Authentication\<close>




section \<open>Tenant resolution\<close>



section \<open>Dispatch\<close>

text \<open>
  Claim C5. The request is authenticated and its team has the token \<open>accessToken\<close>; the
  context handed to a handler holds the raw body, that token and the request. A
  handler is registered under a key when the table maps the key to a function. Then:
  for each of the four event types and for a command, a registered key gives one call,
  of the function registered under that key in the table of that type, and nothing
  else; an unregistered key gives the log line and the 400 response of the type, and no
  call; an event of any other type gives 400 \<open>Unrecognized interaction type\<close>. The key
  is \<open>callback_id\<close> for a shortcut, the \<open>action_id\<close> of the first action for
  \<open>block_actions\<close>, the \<open>callback_id\<close> of the view for the two view events, and the
  form field \<open>command\<close> for a command.
\<close>

theorem C5_dispatch:
  assumes auth: "authenticated E a req bodyText queries"
    and ctx: "ctx = \<lparr>Body = bodyText, ctx_Token = Token accessToken, Req = req\<rparr>"
  shows
    "(resolved E a queries event accessToken \<longrightarrow>
        (Type event = ''shortcut'' \<longrightarrow>
           (shortcutListeners a (CallbackID event) = Some (Func h)
              \<longrightarrow> interactions E a req = (a, [Call h ctx]))
         \<and> (shortcutListeners a (CallbackID event) = None
              \<longrightarrow> interactions E a req =
                    (a, [Printf (''Unrecognized shortcut: '' @ CallbackID event @ newline),
                         Response 400 ''Unrecognized shortcut callback_id'' []])))
      \<and> (Type event = ''block_actions'' \<and> Actions event = action # others \<longrightarrow>
           (actionListeners a (ActionID action) = Some (Func h)
              \<longrightarrow> interactions E a req = (a, [Call h ctx]))
         \<and> (actionListeners a (ActionID action) = None
              \<longrightarrow> interactions E a req =
                    (a, [Printf (''Unrecognized action: '' @ ActionID action @ newline),
                         Response 400 ''Unrecognized action action_id'' []])))
      \<and> (Type event = ''view_submission'' \<and> View event = Some view \<longrightarrow>
           (submitListeners a (view_CallbackID view) = Some (Func h)
              \<longrightarrow> interactions E a req = (a, [Call h ctx]))
         \<and> (submitListeners a (view_CallbackID view) = None
              \<longrightarrow> interactions E a req =
                    (a, [Printf (''Unrecognized submission event from view: ''
                           @ view_CallbackID view @ newline),
                         Response 400 ''Unrecognized view submission callback_id'' []])))
      \<and> (Type event = ''view_closed'' \<and> View event = Some view \<longrightarrow>
           (closeListeners a (view_CallbackID view) = Some (Func h)
              \<longrightarrow> interactions E a req = (a, [Call h ctx]))
         \<and> (closeListeners a (view_CallbackID view) = None
              \<longrightarrow> interactions E a req =
                    (a, [Printf (''Unrecognized closed event from view: ''
                           @ view_CallbackID view @ newline),
                         Response 400 ''Unrecognized view closed callback_id'' []])))
      \<and> (Type event \<noteq> ''shortcut'' \<and> Type event \<noteq> ''block_actions''
          \<and> Type event \<noteq> ''view_submission'' \<and> Type event \<noteq> ''view_closed''
          \<longrightarrow> interactions E a req = (a, [Response 400 ''Unrecognized interaction type'' []])))
   \<and> (findTokenForWorkspace (Tokens (opts a)) (Values_Get queries ''team_id'') = Some accessToken \<longrightarrow>
        (cmds a (Values_Get queries ''command'') = Some (Func h)
           \<longrightarrow> commands E a req = (a, [Call h ctx]))
      \<and> (cmds a (Values_Get queries ''command'') = None
           \<longrightarrow> commands E a req =
                 (a, [Printf (''Unrecognized command: '' @ Values_Get queries ''command'' @ newline),
                      Response 400 ''Unrecognized command'' []])))"
proof (intro conjI impI)
  assume "findTokenForWorkspace (Tokens (opts a)) (Values_Get queries ''team_id'') = Some accessToken"
    and "cmds a (Values_Get queries ''command'') = Some (Func h)"
  with auth ctx show "commands E a req = (a, [Call h ctx])"
    by (simp add: authenticated_def commands_def invoke_def)
next
  assume "findTokenForWorkspace (Tokens (opts a)) (Values_Get queries ''team_id'') = Some accessToken"
    and "cmds a (Values_Get queries ''command'') = None"
  with auth show "commands E a req =
      (a, [Printf (''Unrecognized command: '' @ Values_Get queries ''command'' @ newline),
           Response 400 ''Unrecognized command'' []])"
    by (simp add: authenticated_def commands_def invoke_def)
qed (use auth ctx in \<open>auto simp: authenticated_def resolved_def interactions_def invoke_def
       split: option.splits\<close>)

lemma sample_token:
  "findTokenForWorkspace (Tokens (opts sample_app)) ''T1'' = Some \<lparr>Workspace = ''T1'', Token = ''xoxb-T1''\<rparr>"
  by (simp add: sample_app_fields sample_options_def)

lemma resolved_sample:
  "map_of sample_events payload = Some event \<Longrightarrow> event_Team event = Some \<lparr>ID = ''T1'', Domain = []\<rparr>
   \<Longrightarrow> resolved sample_externals sample_app [''payload'' \<mapsto> [payload]] event
         \<lparr>Workspace = ''T1'', Token = ''xoxb-T1''\<rparr>"
  by (simp add: resolved_def sample_externals_def Values_Get_def sample_token)

lemma decode_samples:
  "map_of sample_events payload_click = Some event_click"
  "map_of sample_events payload_click_two = Some event_click_two"
  "map_of sample_events payload_no_actions = Some event_no_actions"
  "map_of sample_events payload_shortcut = Some event_shortcut"
  "map_of sample_events payload_submit = Some event_submit"
  "map_of sample_events payload_closed = Some event_closed"
  "map_of sample_events payload_other = Some event_other"
  by (simp_all add: sample_events_def payload_defs)

text \<open>
  Witness for C5: a registered command, an unregistered command, a registered shortcut,
  a registered action, a registered view submission, an unregistered view close and an
  event of another type, all signed and of workspace \<open>T1\<close>.
\<close>

theorem C5_witness:
  "commands sample_externals sample_app (signed_request body_ping signature_ping) =
     (sample_app,
      [Call ''on_ping'' \<lparr>Body = body_ping, ctx_Token = ''xoxb-T1'',
                          Req = signed_request body_ping signature_ping\<rparr>])
   \<and> commands sample_externals sample_app (signed_request body_pong signature_pong) =
     (sample_app, [Printf (''Unrecognized command: /pong'' @ newline),
                   Response 400 ''Unrecognized command'' []])
   \<and> interactions sample_externals sample_app (signed_request body_shortcut signature_shortcut) =
     (sample_app,
      [Call ''on_shortcut'' \<lparr>Body = body_shortcut, ctx_Token = ''xoxb-T1'',
                              Req = signed_request body_shortcut signature_shortcut\<rparr>])
   \<and> interactions sample_externals sample_app (signed_request body_click signature_click) =
     (sample_app,
      [Call ''on_click'' \<lparr>Body = body_click, ctx_Token = ''xoxb-T1'',
                           Req = signed_request body_click signature_click\<rparr>])
   \<and> interactions sample_externals sample_app (signed_request body_submit signature_submit) =
     (sample_app,
      [Call ''on_submit'' \<lparr>Body = body_submit, ctx_Token = ''xoxb-T1'',
                            Req = signed_request body_submit signature_submit\<rparr>])
   \<and> interactions sample_externals sample_app (signed_request body_closed signature_closed) =
     (sample_app, [Printf (''Unrecognized closed event from view: unknown_view'' @ newline),
                   Response 400 ''Unrecognized view closed callback_id'' []])
   \<and> interactions sample_externals sample_app (signed_request body_other signature_other) =
     (sample_app, [Response 400 ''Unrecognized interaction type'' []])"
proof (intro conjI)
  let ?tok = "\<lparr>Workspace = ''T1'', Token = ''xoxb-T1''\<rparr>"
  show "commands sample_externals sample_app (signed_request body_ping signature_ping) =
     (sample_app,
      [Call ''on_ping'' \<lparr>Body = body_ping, ctx_Token = ''xoxb-T1'',
                          Req = signed_request body_ping signature_ping\<rparr>])"
    using C5_dispatch [where accessToken = ?tok and h = "''on_ping''",
        OF authenticated_ping refl, THEN conjunct2]
    by (simp add: Values_Get_def sample_app_fields sample_options_def)
  show "commands sample_externals sample_app (signed_request body_pong signature_pong) =
     (sample_app, [Printf (''Unrecognized command: /pong'' @ newline),
                   Response 400 ''Unrecognized command'' []])"
    using C5_dispatch [where accessToken = ?tok, OF authenticated_pong refl, THEN conjunct2]
    by (simp add: Values_Get_def sample_app_fields sample_options_def)
  show "interactions sample_externals sample_app (signed_request body_shortcut signature_shortcut) =
     (sample_app,
      [Call ''on_shortcut'' \<lparr>Body = body_shortcut, ctx_Token = ''xoxb-T1'',
                              Req = signed_request body_shortcut signature_shortcut\<rparr>])"
    using C5_dispatch [where accessToken = ?tok and event = event_shortcut and h = "''on_shortcut''",
        OF authenticated_shortcut refl, THEN conjunct1]
      resolved_sample [OF decode_samples(4)]
    by (simp add: event_shortcut_def sample_app_fields)
  show "interactions sample_externals sample_app (signed_request body_click signature_click) =
     (sample_app,
      [Call ''on_click'' \<lparr>Body = body_click, ctx_Token = ''xoxb-T1'',
                           Req = signed_request body_click signature_click\<rparr>])"
    using C5_dispatch [where accessToken = ?tok and event = event_click and h = "''on_click''",
        OF authenticated_click refl, THEN conjunct1]
      resolved_sample [OF decode_samples(1)]
    by (simp add: event_click_def sample_app_fields)
  show "interactions sample_externals sample_app (signed_request body_submit signature_submit) =
     (sample_app,
      [Call ''on_submit'' \<lparr>Body = body_submit, ctx_Token = ''xoxb-T1'',
                            Req = signed_request body_submit signature_submit\<rparr>])"
    using C5_dispatch [where accessToken = ?tok and event = event_submit and h = "''on_submit''",
        OF authenticated_submit refl, THEN conjunct1]
      resolved_sample [OF decode_samples(5)]
    by (simp add: event_submit_def sample_app_fields)
  show "interactions sample_externals sample_app (signed_request body_closed signature_closed) =
     (sample_app, [Printf (''Unrecognized closed event from view: unknown_view'' @ newline),
                   Response 400 ''Unrecognized view closed callback_id'' []])"
    using C5_dispatch [where accessToken = ?tok and event = event_closed,
        OF authenticated_closed refl, THEN conjunct1]
      resolved_sample [OF decode_samples(6)]
    by (simp add: event_closed_def sample_app_fields)
  show "interactions sample_externals sample_app (signed_request body_other signature_other) =
     (sample_app, [Response 400 ''Unrecognized interaction type'' []])"
    using C5_dispatch [where accessToken = ?tok and event = event_other,
        OF authenticated_other refl, THEN conjunct1]
      resolved_sample [OF decode_samples(7)]
    by (simp add: event_other_def)
qed

text \<open>
  Claim C7 asks for a guard that the code does not have. \<^verbatim>\<open>interactions\<close> reads
  \<^verbatim>\<open>event.Actions[0]\<close> with no test of the length: for an authenticated
  \<open>block_actions\<close> event of a registered team with no actions, the handler panics with
  an index out of range and writes no response.
\<close>

theorem C7_empty_actions_panics:
  assumes "authenticated E a req bodyText queries"
    and "resolved E a queries event accessToken"
    and "Type event = ''block_actions''"
    and "Actions event = []"
  shows "interactions E a req = (a, [Panic (IndexOutOfRange 0 0)])"
  using assms
  by (auto simp: authenticated_def resolved_def interactions_def split: option.splits)

text \<open>
  The failing input of C7: the signed payload
  \<open>{"type":"block_actions","team":{"id":"T1"}}\<close>.
\<close>

theorem C7_failing_input:
  \<open>interactions sample_externals sample_app (signed_request body_no_actions signature_no_actions)
     = (sample_app, [Panic (IndexOutOfRange 0 0)])\<close>
  using C7_empty_actions_panics [OF authenticated_no_actions resolved_sample [OF decode_samples(3)]]
  by (simp add: event_no_actions_def)

text \<open>
  Claim C8. Two authenticated \<open>block_actions\<close> requests of teams with a token, whose
  events have the same first action and any further actions: both are dispatched on the
  \<open>action_id\<close> of the first action alone. If a function is registered under it, each
  request calls that function once, with its own context; if nothing is registered,
  both get the same log line and the same 400 response. The further actions have no
  effect.
\<close>

theorem C8_first_action_only:
  assumes auth: "authenticated E a req bodyText queries"
    and res: "resolved E a queries event accessToken"
    and type: "Type event = ''block_actions''"
    and actions: "Actions event = action # others"
    and auth': "authenticated E a req' bodyText' queries'"
    and res': "resolved E a queries' event' accessToken'"
    and type': "Type event' = ''block_actions''"
    and actions': "Actions event' = action # others'"
  shows
    "(actionListeners a (ActionID action) = Some (Func h) \<longrightarrow>
        interactions E a req =
          (a, [Call h \<lparr>Body = bodyText, ctx_Token = Token accessToken, Req = req\<rparr>])
        \<and> interactions E a req' =
          (a, [Call h \<lparr>Body = bodyText', ctx_Token = Token accessToken', Req = req'\<rparr>]))
     \<and> (actionListeners a (ActionID action) = None \<longrightarrow>
        interactions E a req =
          (a, [Printf (''Unrecognized action: '' @ ActionID action @ newline),
               Response 400 ''Unrecognized action action_id'' []])
        \<and> interactions E a req' = interactions E a req)"
proof -
  have 1: "interactions E a req =
      (a, invoke (actionListeners a) (ActionID action)
            \<lparr>Body = bodyText, ctx_Token = Token accessToken, Req = req\<rparr>
            [Printf (''Unrecognized action: '' @ ActionID action @ newline),
             Response 400 ''Unrecognized action action_id'' []])"
    using auth res type actions
    by (auto simp: authenticated_def resolved_def interactions_def split: option.splits)
  have 2: "interactions E a req' =
      (a, invoke (actionListeners a) (ActionID action)
            \<lparr>Body = bodyText', ctx_Token = Token accessToken', Req = req'\<rparr>
            [Printf (''Unrecognized action: '' @ ActionID action @ newline),
             Response 400 ''Unrecognized action action_id'' []])"
    using auth' res' type' actions'
    by (auto simp: authenticated_def resolved_def interactions_def split: option.splits)
  from 1 2 show ?thesis
    by (simp add: invoke_def)
qed

text \<open>
  Witness for C8: one click on \<open>clicked_me\<close>, and the same click followed by a second
  action, reach the same handler.
\<close>

theorem C8_witness:
  "interactions sample_externals sample_app (signed_request body_click signature_click) =
     (sample_app,
      [Call ''on_click'' \<lparr>Body = body_click, ctx_Token = ''xoxb-T1'',
                           Req = signed_request body_click signature_click\<rparr>])
   \<and> interactions sample_externals sample_app (signed_request body_click_two signature_click_two) =
     (sample_app,
      [Call ''on_click'' \<lparr>Body = body_click_two, ctx_Token = ''xoxb-T1'',
                           Req = signed_request body_click_two signature_click_two\<rparr>])"
  using C8_first_action_only [where h = "''on_click''" and event = event_click
      and event' = event_click_two
      and action = "\<lparr>ActionID = ''clicked_me'', BlockID = [], Value = [], action_Type = [],
                     ActionTS = []\<rparr>",
      OF authenticated_click resolved_sample [OF decode_samples(1)] _ _
         authenticated_click_two resolved_sample [OF decode_samples(2)]]
  by (simp add: event_click_def event_click_two_def sample_app_fields)

section \<open>Rejected requests and the shared state\<close>

lemma fst_interactions: "fst (interactions E a req) = a"
  by (simp add: interactions_def Let_def split: option.split prod.split list.split)

lemma fst_commands: "fst (commands E a req) = a"
  by (simp add: commands_def Let_def split: option.split prod.split)

lemma rejected_appInstall: "rejected (snd (appInstall E a req)) \<Longrightarrow> fst (appInstall E a req) = a"
  by (simp add: appInstall_def install_page_def Let_def split: option.splits if_splits)

text \<open>
  Claim C9. The state is the whole \<^verbatim>\<open>SlackApp\<close>: the options with the token list,
  the callback and the five handler tables. A request to \<^verbatim>\<open>interactions\<close>,
  \<^verbatim>\<open>commands\<close> or \<^verbatim>\<open>appInstall\<close> that is answered 400, 401 or 500 leaves it as it
  was. In particular \<^verbatim>\<open>appInstall\<close> answers 500 and adds no token when the post
  fails, when the reply does not decode, and when the reply is not ok.
\<close>

theorem C9_rejection_keeps_state:
  "(rejected (snd (interactions E a req)) \<longrightarrow> fst (interactions E a req) = a)
   \<and> (rejected (snd (commands E a req)) \<longrightarrow> fst (commands E a req) = a)
   \<and> (rejected (snd (appInstall E a req)) \<longrightarrow> fst (appInstall E a req) = a)
   \<and> (install_exchange E a req = None \<longrightarrow>
        appInstall E a req =
          (a, [Response 500 ''Unable to authorize Slack App for workspace'' []]))
   \<and> (install_exchange E a req = Some resp_Body \<and> json_Decode_oauth E resp_Body = None \<longrightarrow>
        appInstall E a req =
          (a, [Response 500 ''Unable to get Slack OAuth2 Access Response for workspace'' []]))
   \<and> (install_exchange E a req = Some resp_Body
        \<and> json_Decode_oauth E resp_Body = Some installResponse \<and> \<not> Ok installResponse \<longrightarrow>
        appInstall E a req = (a, [Response 500 ''Slack App Access Request is not Ok'' []]))"
proof (intro conjI impI)
  assume "rejected (snd (appInstall E a req))"
  then show "fst (appInstall E a req) = a"
    by (rule rejected_appInstall)
qed (simp_all add: fst_interactions fst_commands appInstall_def)

lemma sample_exchange:
  "install_exchange sample_externals (OnAppInstall sample_app cb) (install_request ''code=abc123'')
     = Some reply_T9"
  "install_exchange sample_externals (OnAppInstall sample_app cb) (install_request ''code=again'')
     = Some reply_T1_again"
  "install_exchange sample_externals (OnAppInstall sample_app cb) (install_request ''code=expired'')
     = Some reply_not_ok"
  "install_exchange sample_externals (OnAppInstall sample_app cb) (install_request ''code=garbled'')
     = Some reply_garbled"
  "install_exchange sample_externals (OnAppInstall sample_app cb) (install_request ''code=offline'')
     = None"
  by (simp_all add: install_exchange_def sample_externals_def install_request_def URL_Query_def
        OnAppInstall_def sample_app_fields sample_options_def install_form_Encode_def
        shouldEscape_def sample_replies_def eval_simps)

lemma sample_decode:
  "json_Decode_oauth sample_externals reply_T9 = Some (oauth_reply True ''xoxb-T9'' ''T9'')"
  "json_Decode_oauth sample_externals reply_T1_again = Some (oauth_reply True ''xoxb-new'' ''T1'')"
  "json_Decode_oauth sample_externals reply_not_ok = Some (oauth_reply False [] [])"
  "json_Decode_oauth sample_externals reply_garbled = None"
  by (simp_all add: sample_externals_def sample_oauth_def reply_T9_def reply_T1_again_def
        reply_not_ok_def reply_garbled_def)

text \<open>
  Witness for C9: an unsigned command is answered 401, and the three failures of the
  install exchange are answered 500; the application is the same afterwards.
\<close>

theorem C9_witness:
  "rejected (snd (commands sample_externals sample_app (signed_request body_ping [])))
   \<and> fst (commands sample_externals sample_app (signed_request body_ping [])) = sample_app
   \<and> rejected (snd (interactions sample_externals sample_app (signed_request body_ping [])))
   \<and> fst (interactions sample_externals sample_app (signed_request body_ping [])) = sample_app
   \<and> rejected (snd (appInstall sample_externals (OnAppInstall sample_app None)
                      (install_request ''code=expired'')))
   \<and> fst (appInstall sample_externals (OnAppInstall sample_app None)
            (install_request ''code=expired'')) = OnAppInstall sample_app None
   \<and> appInstall sample_externals (OnAppInstall sample_app None) (install_request ''code=offline'')
       = (OnAppInstall sample_app None,
          [Response 500 ''Unable to authorize Slack App for workspace'' []])
   \<and> appInstall sample_externals (OnAppInstall sample_app None) (install_request ''code=garbled'')
       = (OnAppInstall sample_app None,
          [Response 500 ''Unable to get Slack OAuth2 Access Response for workspace'' []])
   \<and> appInstall sample_externals (OnAppInstall sample_app None) (install_request ''code=expired'')
       = (OnAppInstall sample_app None, [Response 500 ''Slack App Access Request is not Ok'' []])"
proof -
  let ?E = sample_externals and ?a = "OnAppInstall sample_app None :: string SlackApp"
  have bad: "\<not> checkSlackSecret ?E sample_app [] ''1000'' body_ping"
    by (simp add: checkSlackSecret_def)
  have 401: "commands ?E sample_app (signed_request body_ping []) =
               (sample_app, [Response 401 ''Unauthorized'' []])"
            "interactions ?E sample_app (signed_request body_ping []) =
               (sample_app, [Response 401 ''Unauthorized'' []])"
    using bad by (simp_all add: commands_def interactions_def signed_request_def parse_ping)
  note c9 = C9_rejection_keeps_state [where E = ?E]
  have offline: "appInstall ?E ?a (install_request ''code=offline'') =
      (?a, [Response 500 ''Unable to authorize Slack App for workspace'' []])"
    using c9 [of ?a "install_request ''code=offline''"] sample_exchange(5) [of None]
    by simp
  have garbled: "appInstall ?E ?a (install_request ''code=garbled'') =
      (?a, [Response 500 ''Unable to get Slack OAuth2 Access Response for workspace'' []])"
    using c9 [where a = ?a and req = "install_request ''code=garbled''"
        and resp_Body = reply_garbled] sample_exchange(4) [of None] sample_decode(4)
    by simp
  have expired: "appInstall ?E ?a (install_request ''code=expired'') =
      (?a, [Response 500 ''Slack App Access Request is not Ok'' []])"
    using c9 [where a = ?a and req = "install_request ''code=expired''"
        and resp_Body = reply_not_ok and installResponse = "oauth_reply False [] []"]
      sample_exchange(3) [of None] sample_decode(3)
    by (simp add: oauth_reply_def)
  have rej: "rejected (snd (commands ?E sample_app (signed_request body_ping [])))"
    "rejected (snd (interactions ?E sample_app (signed_request body_ping [])))"
    "rejected (snd (appInstall ?E ?a (install_request ''code=expired'')))"
    by (simp_all add: 401 expired)
  from c9 [of sample_app "signed_request body_ping []"] c9 [of ?a "install_request ''code=expired''"]
    rej offline garbled expired
  show ?thesis by simp
qed

text \<open>
  Claim C10: no request makes \<^verbatim>\<open>commands\<close> write the response
  \<open>Unrecognized workspace\<close>. The branch that writes it tests \<^verbatim>\<open>accessToken == nil\<close>
  after the same test has already returned 400 \<open>App not installed for workspace\<close>.
\<close>

theorem C10_unrecognized_workspace_unreachable:
  "Response 400 ''Unrecognized workspace'' headers \<notin> set (snd (commands E a req))"
  by (auto simp: commands_def invoke_def Let_def
        split: option.splits prod.splits handler_func.splits if_splits)

section \<open>Install exchange\<close>

lemma install_page_AddToken [simp]: "install_page E (AddToken a token) = install_page E a"
  by (simp add: install_page_def AddToken_def)




end
